theory Spec2Isabelle
  imports Main "HOL-Library.Sublist" "HOL-Library.Word"
begin

section \<open>Values the client receives\<close>

text \<open>
  The client is a React application of two components: \<open>App\<close> (the session, the
  conversation and the three network calls) and \<open>ChatInterface\<close> (the input form, the
  upload notifications and the status line). The file \<open>ChatInterface.tsx\<close> holds two
  revisions of the component one after the other; the second one (with
  \<open>isProcessingQuery\<close>) is the one modelled here.

  TypeScript's types are erased when the program runs: what \<open>response.json()\<close> returns
  is any JSON value. Strings are the UTF-8 bytes of the JavaScript string. Numbers are IEEE
  doubles in the program; the model keeps them abstract (the type parameter \<open>'n\<close>) and
  takes what the program does with them from the platform: printing them and testing
  them for zero.

  An \<open>async\<close> handler is split where it waits for the network: the part that runs at
  the event, and the part that runs when the request has ended, in whatever state the
  components are by then. What the second part still holds from the first (the values its
  closure captured) is passed to it explicitly. \<open>formatResponse\<close>, which lays a response
  text out as paragraphs, is outside this development.
\<close>

datatype 'n json =
    JNull
  | JBool bool
  | JNum 'n
  | JStr string
  | JArr "'n json list"
  | JObj "(string \<times> 'n json) list"

text \<open>
  What an expression of the program can evaluate to: \<open>undefined\<close>, a parsed JSON value,
  or a built-in function found on a prototype (\<open>String.prototype.link\<close> is the only one
  the program can meet).
\<close>

datatype 'n jsval = Undefined | Val "'n json" | Native

datatype js_error = TypeError | FetchFailed | BodyNotJSON | UploadFailed | NoSessionID

text \<open>
  What the program takes from the platform about numbers and built-in functions:
  \<open>Number.prototype.toString\<close>, the test for \<open>+0\<close> and \<open>-0\<close> (the only falsy
  numbers JSON can produce), the test for a finite number (\<open>1e999\<close> parses to
  \<open>Infinity\<close>), and the text a built-in function prints as.
\<close>

record 'n platform =
  numToString :: "'n \<Rightarrow> string"
  numIsZero :: "'n \<Rightarrow> bool"
  numIsFinite :: "'n \<Rightarrow> bool"
  nativeSource :: string

definition thenE :: "'e + 'a \<Rightarrow> ('a \<Rightarrow> 'e + 'b) \<Rightarrow> 'e + 'b" where
  "thenE r f = (case r of Inl e \<Rightarrow> Inl e | Inr x \<Rightarrow> f x)"

text \<open>
  Results computed one after the other, up to the first that throws; a callback applied
  to the elements of a list in order; and the pieces of a template literal, each
  converted in turn and then concatenated.
\<close>

fun sequenceE :: "('e + 'a) list \<Rightarrow> 'e + 'a list" where
  "sequenceE [] = Inr []"
| "sequenceE (r # rs) =
     (case r of
        Inl e \<Rightarrow> Inl e
      | Inr y \<Rightarrow> (case sequenceE rs of Inl e \<Rightarrow> Inl e | Inr ys \<Rightarrow> Inr (y # ys)))"

definition mapE :: "('a \<Rightarrow> 'e + 'b) \<Rightarrow> 'a list \<Rightarrow> 'e + 'b list" where
  "mapE f xs = sequenceE (map f xs)"

definition template :: "('e + string) list \<Rightarrow> 'e + string" where
  "template parts = thenE (sequenceE parts) (\<lambda>ps. Inr (concat ps))"

definition NL :: string where
  "NL = [CHR 0x0A]"

text \<open>\<open>Array.prototype.join\<close> on strings.\<close>

fun js_join :: "string \<Rightarrow> string list \<Rightarrow> string" where
  "js_join sep [] = []"
| "js_join sep [x] = x"
| "js_join sep (x # y # ys) = x @ sep @ js_join sep (y # ys)"

text \<open>
  \<open>ToString\<close> of a parsed value, as a template literal applies it. An array prints its
  elements joined by commas, \<open>null\<close> elements as the empty string. An object prints as
  \<open>[object Object]\<close> through the \<open>toString\<close> it inherits; an object with an own
  \<open>toString\<close> key hides that method behind a value that cannot be called (nothing
  parsed from JSON can), its \<open>valueOf\<close> gives no primitive either, and the conversion
  throws a \<open>TypeError\<close>.
\<close>

fun toStr :: "'n platform \<Rightarrow> 'n json \<Rightarrow> js_error + string" where
  "toStr P JNull = Inr ''null''"
| "toStr P (JBool b) = Inr (if b then ''true'' else ''false'')"
| "toStr P (JNum n) = Inr (numToString P n)"
| "toStr P (JStr s) = Inr s"
| "toStr P (JArr xs) =
     thenE (sequenceE (map (\<lambda>x. case x of JNull \<Rightarrow> Inr [] | _ \<Rightarrow> toStr P x) xs))
       (\<lambda>parts. Inr (js_join '','' parts))"
| "toStr P (JObj kvs) =
     (case map_of kvs ''toString'' of
        Some v \<Rightarrow> Inl TypeError
      | None \<Rightarrow> Inr ''[object Object]'')"

fun toStrV :: "'n platform \<Rightarrow> 'n jsval \<Rightarrow> js_error + string" where
  "toStrV P Undefined = Inr ''undefined''"
| "toStrV P (Val v) = toStr P v"
| "toStrV P Native = Inr (nativeSource P)"

text \<open>\<open>xs.join(sep)\<close> on an array of parsed values.\<close>

definition arrayJoin :: "'n platform \<Rightarrow> string \<Rightarrow> 'n json list \<Rightarrow> js_error + string" where
  "arrayJoin P sep xs =
     thenE (sequenceE (map (\<lambda>x. case x of JNull \<Rightarrow> Inr [] | _ \<Rightarrow> toStr P x) xs))
       (\<lambda>parts. Inr (js_join sep parts))"

text \<open>Truthiness, as \<open>!x\<close> and \<open>x || y\<close> test it.\<close>

fun truthy :: "'n platform \<Rightarrow> 'n jsval \<Rightarrow> bool" where
  "truthy P Undefined = False"
| "truthy P Native = True"
| "truthy P (Val JNull) = False"
| "truthy P (Val (JBool b)) = b"
| "truthy P (Val (JNum n)) = (\<not> numIsZero P n)"
| "truthy P (Val (JStr s)) = (s \<noteq> [])"
| "truthy P (Val (JArr xs)) = True"
| "truthy P (Val (JObj kvs)) = True"

text \<open>
  Reading a property \<open>v.k\<close>, for the names this program reads (\<open>type\<close>, \<open>summaries\<close>,
  \<open>results\<close>, \<open>serp_results\<close>, \<open>expert_summary\<close>, \<open>core_keyword\<close>, \<open>response\<close>,
  \<open>file\<close>, \<open>summary\<close>, \<open>pages\<close>, \<open>page\<close>, \<open>relevance_score\<close>,
  \<open>preview_summary\<close>, \<open>title\<close>, \<open>link\<close>, \<open>snippet\<close>, \<open>session_id\<close>,
  \<open>message\<close>, \<open>pages_extracted\<close>, \<open>chunks_created\<close>): none of them is inherited
  by an object, an array, a number or a boolean, and a string inherits only \<open>link\<close>.
  An object is the list of its own properties in the order JavaScript enumerates them,
  each key once (the first binding of a key is its value).
  Reading a property of \<open>null\<close> throws.
\<close>

fun readProp :: "'n json \<Rightarrow> string \<Rightarrow> 'n jsval" where
  "readProp (JObj kvs) k = (case map_of kvs k of None \<Rightarrow> Undefined | Some v \<Rightarrow> Val v)"
| "readProp (JStr s) k = (if k = ''link'' then Native else Undefined)"
| "readProp v k = Undefined"

definition getProp :: "'n json \<Rightarrow> string \<Rightarrow> js_error + 'n jsval" where
  "getProp v k = (if v = JNull then Inl TypeError else Inr (readProp v k))"

text \<open>
  \<open>v.map((x, idx) => f)\<close>: only an array has \<open>map\<close>; on anything else the call
  throws a \<open>TypeError\<close> (\<open>undefined\<close> has no properties, and no other parsed value
  has a function under that name). The callback's throw ends the traversal.
\<close>

definition arrayMap :: "('n json \<Rightarrow> nat \<Rightarrow> js_error + 'b) \<Rightarrow> 'n jsval \<Rightarrow> js_error + 'b list" where
  "arrayMap f v =
     (case v of
        Val (JArr xs) \<Rightarrow> mapE (\<lambda>(x, idx). f x idx) (zip xs [0..<length xs])
      | _ \<Rightarrow> Inl TypeError)"

text \<open>
  Decimal digits of a natural number: how \<open>idx + 1\<close> and \<open>Date.now()\<close> print, both
  being integers far below \<open>2^53\<close>.
\<close>

definition digit :: "nat \<Rightarrow> char" where
  "digit d = ''0123456789'' ! d"

function showNat :: "nat \<Rightarrow> string" where
  "showNat n = (if n < 10 then [digit n] else showNat (n div 10) @ [digit (n mod 10)])"
  by pat_completeness auto
termination
  by (relation "measure (\<lambda>n. n)") auto

declare showNat.simps [simp del]

text \<open>
  \<open>JSON.stringify\<close> on a parsed value, without indentation: strings are quoted with the
  escapes of \<open>QuoteJSONString\<close>, a number that is not finite prints as \<open>null\<close>.
\<close>

definition hexDigit :: "nat \<Rightarrow> char" where
  "hexDigit d = ''0123456789abcdef'' ! d"

definition quoteChar :: "char \<Rightarrow> string" where
  "quoteChar c =
     (if c = CHR 0x08 then [CHR 0x5C, CHR ''b'']
      else if c = CHR 0x09 then [CHR 0x5C, CHR ''t'']
      else if c = CHR 0x0A then [CHR 0x5C, CHR ''n'']
      else if c = CHR 0x0C then [CHR 0x5C, CHR ''f'']
      else if c = CHR 0x0D then [CHR 0x5C, CHR ''r'']
      else if c = CHR 0x22 then [CHR 0x5C, CHR 0x22]
      else if c = CHR 0x5C then [CHR 0x5C, CHR 0x5C]
      else if (of_char c :: nat) < 0x20 then
        [CHR 0x5C, CHR ''u'', CHR ''0'', CHR ''0'', hexDigit (of_char c div 16), hexDigit (of_char c mod 16)]
      else [c])"

definition quoteJSONString :: "string \<Rightarrow> string" where
  "quoteJSONString s = [CHR 0x22] @ concat (map quoteChar s) @ [CHR 0x22]"

fun stringify :: "'n platform \<Rightarrow> 'n json \<Rightarrow> string" where
  "stringify P JNull = ''null''"
| "stringify P (JBool b) = (if b then ''true'' else ''false'')"
| "stringify P (JNum n) = (if numIsFinite P n then numToString P n else ''null'')"
| "stringify P (JStr s) = quoteJSONString s"
| "stringify P (JArr xs) = ''['' @ js_join '','' (map (stringify P) xs) @ '']''"
| "stringify P (JObj kvs) =
     ''{'' @ js_join '','' (map (\<lambda>(k, v). quoteJSONString k @ '':'' @ stringify P v) kvs) @ ''}''"

text \<open>
  A platform whose numbers are the integers from \<open>0\<close> up to \<open>2^32 - 1\<close>, each of
  which is a double that JavaScript prints in plain decimal, digit for digit: the one
  the examples below are evaluated on.
\<close>

definition uint32Platform :: "32 word platform" where
  "uint32Platform = \<lparr>numToString = (\<lambda>w. showNat (unat w)), numIsZero = (\<lambda>w. w = 0),
     numIsFinite = (\<lambda>w. True), nativeSource = ''function link() { [native code] }''\<rparr>"

section \<open>Response synthesis (the dispatch of handleSubmitQuery)\<close>

definition divider :: string where
  "divider = NL @ NL @ ''---'' @ NL @ NL"

text \<open>\<open>`**${s.file}**\n\n${s.summary}`\<close>\<close>

definition summaryBlock :: "'n platform \<Rightarrow> 'n json \<Rightarrow> js_error + string" where
  "summaryBlock P s =
     thenE (getProp s ''file'') (\<lambda>f.
     thenE (getProp s ''summary'') (\<lambda>sm.
       template [Inr ''**'', toStrV P f, Inr ''**'', Inr NL, Inr NL, toStrV P sm]))"

text \<open>
  \<open>s.pages?.join(', ')\<close>: \<open>undefined\<close> when \<open>pages\<close> is \<open>undefined\<close> or \<open>null\<close>;
  the optional chain does not guard the call itself, so a value that is not an array throws.
\<close>

definition pagesJoin :: "'n platform \<Rightarrow> 'n jsval \<Rightarrow> js_error + 'n jsval" where
  "pagesJoin P v =
     (case v of
        Undefined \<Rightarrow> Inr Undefined
      | Val JNull \<Rightarrow> Inr Undefined
      | Val (JArr xs) \<Rightarrow> thenE (arrayJoin P '', '' xs) (\<lambda>t. Inr (Val (JStr t)))
      | _ \<Rightarrow> Inl TypeError)"

text \<open>\<open>`**${s.file} - Pages ${s.pages?.join(', ')}**\n\n${s.summary}`\<close>\<close>

definition pageBlock :: "'n platform \<Rightarrow> 'n json \<Rightarrow> js_error + string" where
  "pageBlock P s =
     thenE (getProp s ''file'') (\<lambda>f.
     thenE (getProp s ''pages'') (\<lambda>pg.
     thenE (pagesJoin P pg) (\<lambda>pj.
     thenE (getProp s ''summary'') (\<lambda>sm.
       template [Inr ''**'', toStrV P f, Inr '' - Pages '', toStrV P pj, Inr ''**'',
                 Inr NL, Inr NL, toStrV P sm]))))"

text \<open>
  \<open>`${idx + 1}. **${r.file} - Page ${r.page}** (Relevance: ${r.relevance_score})\n${r.preview_summary}`\<close>
\<close>

definition conceptItem :: "'n platform \<Rightarrow> 'n json \<Rightarrow> nat \<Rightarrow> js_error + string" where
  "conceptItem P r idx =
     thenE (getProp r ''file'') (\<lambda>f.
     thenE (getProp r ''page'') (\<lambda>pg.
     thenE (getProp r ''relevance_score'') (\<lambda>sc.
     thenE (getProp r ''preview_summary'') (\<lambda>pv.
       template [Inr (showNat (idx + 1)), Inr ''. **'', toStrV P f, Inr '' - Page '', toStrV P pg,
                 Inr ''** (Relevance: '', toStrV P sc, Inr '')'', Inr NL, toStrV P pv]))))"

text \<open>\<open>`${idx + 1}. [${r.title}](${r.link})\n${r.snippet || ''}`\<close>\<close>

definition serpItem :: "'n platform \<Rightarrow> 'n json \<Rightarrow> nat \<Rightarrow> js_error + string" where
  "serpItem P r idx =
     thenE (getProp r ''title'') (\<lambda>t.
     thenE (getProp r ''link'') (\<lambda>l.
     thenE (getProp r ''snippet'') (\<lambda>sn.
       template [Inr (showNat (idx + 1)), Inr ''. ['', toStrV P t, Inr '']('', toStrV P l,
                 Inr '')'', Inr NL, toStrV P (if truthy P sn then sn else Val (JStr []))])))"

text \<open>
  The preamble shared by \<open>concept_search\<close> and \<open>serp_fallback\<close>, up to the heading:
  \<open>`**Expert Summary:**\n${data.expert_summary}\n\n**Core Keyword:** ${data.core_keyword}\n\n...\n\n`\<close>.
  It throws when one of the two values cannot be converted.
\<close>

definition preamble :: "'n platform \<Rightarrow> 'n json \<Rightarrow> string \<Rightarrow> js_error + string" where
  "preamble P data heading =
     template [Inr ''**Expert Summary:**'', Inr NL, toStrV P (readProp data ''expert_summary''),
               Inr NL, Inr NL, Inr ''**Core Keyword:** '',
               toStrV P (readProp data ''core_keyword''), Inr NL, Inr NL,
               Inr heading, Inr NL, Inr NL]"

text \<open>
  The body of the \<open>try\<close> block after \<open>response.json()\<close>: the value of \<open>responseText\<close>,
  or the error thrown on the way. \<open>responseText\<close> is a string on the first four branches
  and whatever \<open>data.response\<close> is on the last two.
\<close>

definition synthesize :: "'n platform \<Rightarrow> 'n json \<Rightarrow> js_error + 'n jsval" where
  "synthesize P data =
     thenE (getProp data ''type'') (\<lambda>ty.
       if ty = Val (JStr ''full_pdf_summary'') then
         thenE (arrayMap (\<lambda>s idx. summaryBlock P s) (readProp data ''summaries'')) (\<lambda>blocks.
           Inr (Val (JStr (js_join divider blocks))))
       else if ty = Val (JStr ''page_summary'') then
         thenE (arrayMap (\<lambda>s idx. pageBlock P s) (readProp data ''summaries'')) (\<lambda>blocks.
           Inr (Val (JStr (js_join divider blocks))))
       else if ty = Val (JStr ''concept_search'') then
         thenE (preamble P data ''**Relevant Results:**'') (\<lambda>pre.
         thenE (arrayMap (conceptItem P) (readProp data ''results'')) (\<lambda>items.
           Inr (Val (JStr (pre @ js_join (NL @ NL) items)))))
       else if ty = Val (JStr ''serp_fallback'') then
         thenE (preamble P data ''**Web Results:**'') (\<lambda>pre.
         thenE (case readProp data ''serp_results'' of
                  Undefined \<Rightarrow> Inr Undefined
                | Val JNull \<Rightarrow> Inr Undefined
                | sr \<Rightarrow> thenE (arrayMap (serpItem P) sr) (\<lambda>items.
                         Inr (Val (JStr (js_join (NL @ NL) items))))) (\<lambda>listed.
         thenE (toStrV P (if truthy P listed then listed else Val (JStr ''No results found.'')))
           (\<lambda>t. Inr (Val (JStr (pre @ t))))))
       else if ty = Val (JStr ''error'') then
         Inr (readProp data ''response'')
       else
         Inr (if truthy P (readProp data ''response'') then readProp data ''response''
              else Val (JStr (stringify P data))))"

section \<open>The state of the two components\<close>

record 'n message =
  msg_id :: string
  msg_query :: string
  msg_response :: "'n jsval"
  msg_timestamp :: nat

record 'n uploadStatus =
  us_id :: string
  us_filename :: string
  us_message :: "'n jsval"
  us_pagesExtracted :: "'n jsval"
  us_chunksCreated :: "'n jsval"
  us_timestamp :: nat

record upload_file =
  file_name :: string
  file_type :: string

text \<open>
  The \<open>useState\<close> cells of \<open>App\<close> (\<open>messages\<close>, \<open>currentQuery\<close>, \<open>sessionId\<close>) and
  of \<open>ChatInterface\<close> (the rest), and the pending timeouts of the status line: each with
  the time left until it fires, in milliseconds, and the message it will set, in the order
  they were created.
\<close>

record 'n state =
  messages :: "'n message list"
  currentQuery :: string
  sessionId :: "'n jsval"
  query :: string
  isUploading :: bool
  isProcessingQuery :: bool
  uploadStatuses :: "'n uploadStatus list"
  uploadingFile :: "string option"
  processingMessage :: string
  timers :: "(nat \<times> string) list"

text \<open>What a handler does to the world outside the two components.\<close>

datatype 'n effect =
    FetchNewChat
  | FetchQuery string "'n jsval"
  | FetchUpload upload_file "'n jsval"
  | Alert string
  | ConsoleError string
  | ConsoleLog string
  | ResetFileInput

text \<open>
  How a \<open>fetch\<close> ends: the promise rejects, or a response arrives with its \<open>ok\<close> flag
  and its body, \<open>None\<close> when the body is not JSON (then \<open>response.json()\<close> rejects).
\<close>

datatype 'n fetch_result = Rejected | Responded bool "'n json option"

fun isFetch :: "'n effect \<Rightarrow> bool" where
  "isFetch FetchNewChat = True"
| "isFetch (FetchQuery q sid) = True"
| "isFetch (FetchUpload f sid) = True"
| "isFetch e = False"

definition msgThinking :: string where
  "msgThinking = [CHR 0xF0, CHR 0x9F, CHR 0x94, CHR 0x8D] @ '' Thinking deeply about your question...''"

definition msgSkimming :: string where
  "msgSkimming = [CHR 0xF0, CHR 0x9F, CHR 0x93, CHR 0x9A] @ '' Skimming through your study materials...''"

definition msgSorry :: string where
  "msgSorry = [CHR 0xE2, CHR 0x8F, CHR 0xB3] @ '' Sorry for the wait '' @ [CHR 0xE2, CHR 0x80, CHR 0x94]
     @ '' almost there!''"

definition msgTrying :: string where
  "msgTrying = [CHR 0xF0, CHR 0x9F, CHR 0xA4, CHR 0x96] @ '' Even I'' @ [CHR 0xE2, CHR 0x80, CHR 0x99]
     @ ''m trying my best... hang tight, I'' @ [CHR 0xE2, CHR 0x80, CHR 0x99] @ ''ll be ready soon!''"

definition warningText :: string where
  "warningText = [CHR 0xE2, CHR 0x9A, CHR 0xA0, CHR 0xEF, CHR 0xB8, CHR 0x8F]
     @ '' An error occurred while processing your query. Please try again.''"

definition initial :: "'n state" where
  "initial = \<lparr>messages = [], currentQuery = [], sessionId = Val JNull, query = [],
     isUploading = False, isProcessingQuery = False, uploadStatuses = [], uploadingFile = None,
     processingMessage = msgThinking, timers = []\<rparr>"

section \<open>The status line (the effect on isProcessingQuery)\<close>

text \<open>
  \<open>setIsProcessingQuery\<close> with the effect that depends on the flag. When the flag
  turns on, the effect sets the first message and starts three timeouts; when it turns
  off, React runs the effect's cleanup, which clears all three (the component starts no
  other timeout). Setting the flag to the value it has does not run the effect.
\<close>

definition setIsProcessingQuery :: "bool \<Rightarrow> 'n state \<Rightarrow> 'n state" where
  "setIsProcessingQuery b s =
     (if isProcessingQuery s = b then s
      else if b then
        s\<lparr>isProcessingQuery := True, processingMessage := msgThinking,
          timers := [(30 * 1000, msgSkimming), (90 * 1000, msgSorry), (210 * 1000, msgTrying)]\<rparr>
      else s\<lparr>isProcessingQuery := False, timers := []\<rparr>)"

text \<open>
  \<open>d\<close> milliseconds pass: every pending timeout whose delay has run out fires, in
  order, and sets its message; the others have \<open>d\<close> less to wait.
\<close>

definition advance :: "nat \<Rightarrow> 'n state \<Rightarrow> 'n state" where
  "advance d s =
     s\<lparr>processingMessage :=
         foldl (\<lambda>m (t, msg). if t \<le> d then msg else m) (processingMessage s) (timers s),
       timers := map (\<lambda>(t, msg). (t - d, msg)) (filter (\<lambda>(t, msg). d < t) (timers s))\<rparr>"

section \<open>The query path: handleSubmit and handleSubmitQuery\<close>

text \<open>
  \<open>String.prototype.trim\<close> leaves the empty string exactly when every code point is
  white space or a line terminator of ECMAScript: U+0009 to U+000D, U+0020, U+00A0,
  U+1680, U+2000 to U+200A, U+2028, U+2029, U+202F, U+205F, U+3000 and U+FEFF, here in
  their UTF-8 encodings.
\<close>

definition asciiSpace :: "char \<Rightarrow> bool" where
  "asciiSpace c = (c = CHR 0x09 \<or> c = CHR 0x0A \<or> c = CHR 0x0B \<or> c = CHR 0x0C
     \<or> c = CHR 0x0D \<or> c = CHR 0x20)"

definition space3 :: "char \<Rightarrow> char \<Rightarrow> char \<Rightarrow> bool" where
  "space3 c d e =
     ((c = CHR 0xE1 \<and> d = CHR 0x9A \<and> e = CHR 0x80)
    \<or> (c = CHR 0xE2 \<and> d = CHR 0x80 \<and> (0x80::nat) \<le> of_char e \<and> of_char e \<le> (0x8A::nat))
    \<or> (c = CHR 0xE2 \<and> d = CHR 0x80 \<and> (e = CHR 0xA8 \<or> e = CHR 0xA9 \<or> e = CHR 0xAF))
    \<or> (c = CHR 0xE2 \<and> d = CHR 0x81 \<and> e = CHR 0x9F)
    \<or> (c = CHR 0xE3 \<and> d = CHR 0x80 \<and> e = CHR 0x80)
    \<or> (c = CHR 0xEF \<and> d = CHR 0xBB \<and> e = CHR 0xBF))"

fun blank :: "string \<Rightarrow> bool" where
  "blank [] = True"
| "blank (c # cs) =
     (if asciiSpace c then blank cs
      else case cs of
        [] \<Rightarrow> False
      | d # ds \<Rightarrow>
          if c = CHR 0xC2 \<and> d = CHR 0xA0 then blank ds
          else (case ds of [] \<Rightarrow> False | e # es \<Rightarrow> space3 c d e \<and> blank es))"

text \<open>
  What the suspended \<open>handleSubmitQuery\<close> holds on to across its \<open>await\<close>: the query
  and the \<open>messages\<close> of the render whose handler was called.
\<close>

record 'n query_closure =
  cl_query :: string
  cl_messages :: "'n message list"

text \<open>
  \<open>handleSubmitQuery\<close> up to its first \<open>await\<close>: the new state, the effects, and the
  closure when a request is in flight (\<open>None\<close>: the promise is already resolved).
\<close>

definition handleSubmitQuery_start ::
    "'n platform \<Rightarrow> string \<Rightarrow> 'n state \<Rightarrow> 'n state \<times> 'n effect list \<times> 'n query_closure option" where
  "handleSubmitQuery_start P q s =
     (if \<not> truthy P (sessionId s) then (s, [ConsoleError ''No session ID available''], None)
      else (s\<lparr>currentQuery := q\<rparr>, [FetchQuery q (sessionId s)],
            Some \<lparr>cl_query = q, cl_messages = messages s\<rparr>))"

text \<open>The \<open>try\<close> block from the \<open>fetch\<close> on: the response text or what was thrown.\<close>

definition queryOutcome :: "'n platform \<Rightarrow> 'n fetch_result \<Rightarrow> js_error + 'n jsval" where
  "queryOutcome P r =
     (case r of
        Rejected \<Rightarrow> Inl FetchFailed
      | Responded ok None \<Rightarrow> Inl BodyNotJSON
      | Responded ok (Some data) \<Rightarrow> synthesize P data)"

text \<open>
  \<open>handleSubmitQuery\<close> after the request has ended, in the state \<open>s\<close> of that moment;
  \<open>now\<close> and \<open>date\<close> are the readings of \<open>Date.now()\<close> and \<open>new Date()\<close>. The
  new list is built from the captured \<open>messages\<close>, not from the current ones.
\<close>

definition handleSubmitQuery_resume ::
    "'n platform \<Rightarrow> 'n query_closure \<Rightarrow> 'n fetch_result \<Rightarrow> nat \<Rightarrow> nat \<Rightarrow> 'n state
       \<Rightarrow> 'n state \<times> 'n effect list" where
  "handleSubmitQuery_resume P cl r now date s =
     (case queryOutcome P r of
        Inr responseText \<Rightarrow>
          (s\<lparr>messages := cl_messages cl @
               [\<lparr>msg_id = showNat now, msg_query = cl_query cl, msg_response = responseText,
                 msg_timestamp = date\<rparr>]\<rparr>, [])
      | Inl e \<Rightarrow>
          (s\<lparr>messages := cl_messages cl @
               [\<lparr>msg_id = showNat now, msg_query = cl_query cl,
                 msg_response = Val (JStr warningText), msg_timestamp = date\<rparr>]\<rparr>,
           [ConsoleError ''Error submitting query:'']))"

text \<open>
  \<open>handleSubmit\<close> up to the point where it is suspended (\<open>e.preventDefault()\<close>
  touches none of the state and is left out). The handler is the one of the latest
  render, so what it reads is the current state. Without a session \<open>onSubmitQuery\<close>
  returns a resolved promise, and the handler runs on to its end.
\<close>

definition handleSubmit ::
    "'n platform \<Rightarrow> 'n state \<Rightarrow> 'n state \<times> 'n effect list \<times> 'n query_closure option" where
  "handleSubmit P s =
     (if \<not> blank (query s) \<and> \<not> isUploading s \<and> \<not> isProcessingQuery s then
        (case handleSubmitQuery_start P (query s) (setIsProcessingQuery True s) of
           (s', effs, Some cl) \<Rightarrow> (s', effs, Some cl)
         | (s', effs, None) \<Rightarrow> (setIsProcessingQuery False (s'\<lparr>query := []\<rparr>), effs, None))
      else (s, [], None))"

text \<open>The rest of \<open>handleSubmit\<close>, once the request has ended.\<close>

definition handleSubmit_resume ::
    "'n platform \<Rightarrow> 'n query_closure \<Rightarrow> 'n fetch_result \<Rightarrow> nat \<Rightarrow> nat \<Rightarrow> 'n state
       \<Rightarrow> 'n state \<times> 'n effect list" where
  "handleSubmit_resume P cl r now date s =
     (case handleSubmitQuery_resume P cl r now date s of
        (s', effs) \<Rightarrow> (setIsProcessingQuery False (s'\<lparr>query := []\<rparr>), effs))"

section \<open>The upload path: handleFileUpload and handleUploadPDF\<close>

text \<open>
  \<open>handleUploadPDF\<close> after its \<open>fetch\<close>: the three fields of the body, or what it
  throws again after logging.
\<close>

definition handleUploadPDF_resume ::
    "'n fetch_result \<Rightarrow> js_error + ('n jsval \<times> 'n jsval \<times> 'n jsval)" where
  "handleUploadPDF_resume r =
     (case r of
        Rejected \<Rightarrow> Inl FetchFailed
      | Responded ok body \<Rightarrow>
          if \<not> ok then Inl UploadFailed
          else (case body of
                  None \<Rightarrow> Inl BodyNotJSON
                | Some data \<Rightarrow>
                    thenE (getProp data ''message'') (\<lambda>m.
                    thenE (getProp data ''pages_extracted'') (\<lambda>p.
                    thenE (getProp data ''chunks_created'') (\<lambda>c. Inr (m, p, c))))))"

text \<open>
  \<open>handleUploadPDF\<close> up to its \<open>fetch\<close>: without a session it throws before any
  request is made (outside its own \<open>try\<close>, so without logging).
\<close>

definition handleUploadPDF_start ::
    "'n platform \<Rightarrow> upload_file \<Rightarrow> 'n state \<Rightarrow> js_error + 'n effect list" where
  "handleUploadPDF_start P f s =
     (if \<not> truthy P (sessionId s) then Inl NoSessionID
      else Inr [FetchUpload f (sessionId s)])"

definition uploadFailedAlert :: string where
  "uploadFailedAlert = ''Failed to upload PDF. Please try again.''"

text \<open>
  \<open>handleFileUpload\<close> up to the point where it is suspended; the result names the
  file when a request is in flight. When \<open>onUploadPDF\<close> throws at once, the handler
  runs through its \<open>catch\<close> and \<open>finally\<close>: the flag and the file name it has just
  set are cleared again.
\<close>

definition handleFileUpload ::
    "'n platform \<Rightarrow> upload_file option \<Rightarrow> 'n state
       \<Rightarrow> 'n state \<times> 'n effect list \<times> upload_file option" where
  "handleFileUpload P sel s =
     (case sel of
        None \<Rightarrow> (s, [], None)
      | Some f \<Rightarrow>
          if file_type f \<noteq> ''application/pdf'' then (s, [Alert ''Please select a PDF file''], None)
          else
            (case handleUploadPDF_start P f s of
               Inl e \<Rightarrow>
                 (s\<lparr>isUploading := False, uploadingFile := None\<rparr>,
                  [ConsoleError ''Upload failed:'', Alert uploadFailedAlert, ResetFileInput], None)
             | Inr effs \<Rightarrow>
                 (s\<lparr>isUploading := True, uploadingFile := Some (file_name f)\<rparr>, effs, Some f)))"

text \<open>
  The rest of \<open>handleFileUpload\<close>, in the state \<open>s\<close> of the moment the request ended.
  The new entry goes after the entries of that moment (\<open>prev => [...prev, newStatus]\<close>).
\<close>

definition newStatus ::
    "upload_file \<Rightarrow> 'n jsval \<times> 'n jsval \<times> 'n jsval \<Rightarrow> nat \<Rightarrow> nat \<Rightarrow> 'n uploadStatus" where
  "newStatus f res now date =
     (case res of (m, p, c) \<Rightarrow>
        \<lparr>us_id = showNat now, us_filename = file_name f, us_message = m,
          us_pagesExtracted = p, us_chunksCreated = c, us_timestamp = date\<rparr>)"

definition handleFileUpload_resume ::
    "upload_file \<Rightarrow> 'n fetch_result \<Rightarrow> nat \<Rightarrow> nat \<Rightarrow> 'n state \<Rightarrow> 'n state \<times> 'n effect list" where
  "handleFileUpload_resume f r now date s =
     (case handleUploadPDF_resume r of
        Inr res \<Rightarrow>
          (s\<lparr>uploadStatuses := uploadStatuses s @ [newStatus f res now date],
             isUploading := False, uploadingFile := None\<rparr>, [ResetFileInput])
      | Inl e \<Rightarrow>
          (s\<lparr>isUploading := False, uploadingFile := None\<rparr>,
           [ConsoleError ''Error uploading PDF:'', ConsoleError ''Upload failed:'',
            Alert uploadFailedAlert, ResetFileInput]))"

definition removeStatus :: "string \<Rightarrow> 'n state \<Rightarrow> 'n state" where
  "removeStatus i s = s\<lparr>uploadStatuses := filter (\<lambda>status. us_id status \<noteq> i) (uploadStatuses s)\<rparr>"

section \<open>The session: createNewSession and handleNewChat\<close>

text \<open>\<open>createNewSession\<close> after its \<open>fetch\<close>; every failure is logged and changes nothing.\<close>

definition createNewSession_resume :: "'n fetch_result \<Rightarrow> 'n state \<Rightarrow> 'n state \<times> 'n effect list" where
  "createNewSession_resume r s =
     (case r of
        Rejected \<Rightarrow> (s, [ConsoleError ''Error creating session:''])
      | Responded ok None \<Rightarrow> (s, [ConsoleError ''Error creating session:''])
      | Responded ok (Some data) \<Rightarrow>
          (case getProp data ''session_id'' of
             Inl e \<Rightarrow> (s, [ConsoleError ''Error creating session:''])
           | Inr sid \<Rightarrow> (s\<lparr>sessionId := sid\<rparr>, [ConsoleLog ''New session created:''])))"

text \<open>
  \<open>createNewSession\<close> up to its \<open>fetch\<close> (it is also what the effect of \<open>App\<close> runs
  once, when the application starts), and \<open>handleNewChat\<close> up to that same point.
\<close>

definition createNewSession :: "'n effect list" where
  "createNewSession = [FetchNewChat]"

definition handleNewChat :: "'n state \<Rightarrow> 'n state \<times> 'n effect list" where
  "handleNewChat s = (s\<lparr>messages := [], currentQuery := []\<rparr>, createNewSession)"

section \<open>The components as an event system\<close>

text \<open>
  What can happen to the two components: the user types, submits, selects a file,
  dismisses a notification or asks for a new chat; a request ends; time passes. The end
  of a request carries what the suspended handler holds on to (the closure of the query,
  the file of the upload) and the readings of the clock it makes.
\<close>

datatype 'n event =
    Typed string
  | Submitted
  | QueryEnded "'n query_closure" "'n fetch_result" nat nat
  | FileSelected "upload_file option"
  | UploadEnded upload_file "'n fetch_result" nat nat
  | Dismissed string
  | NewChatClicked
  | SessionEnded "'n fetch_result"
  | Elapsed nat

fun step :: "'n platform \<Rightarrow> 'n event \<Rightarrow> 'n state \<Rightarrow> 'n state" where
  "step P (Typed t) s = s\<lparr>query := t\<rparr>"
| "step P Submitted s = fst (handleSubmit P s)"
| "step P (QueryEnded cl r now date) s = fst (handleSubmit_resume P cl r now date s)"
| "step P (FileSelected sel) s = fst (handleFileUpload P sel s)"
| "step P (UploadEnded f r now date) s = fst (handleFileUpload_resume f r now date s)"
| "step P (Dismissed i) s = removeStatus i s"
| "step P NewChatClicked s = fst (handleNewChat s)"
| "step P (SessionEnded r) s = fst (createNewSession_resume r s)"
| "step P (Elapsed d) s = advance d s"

definition run :: "'n platform \<Rightarrow> 'n event list \<Rightarrow> 'n state \<Rightarrow> 'n state" where
  "run P evs s = foldl (\<lambda>s' e. step P e s') s evs"

text \<open>The notification an event creates: one for an upload that ends well, none otherwise.\<close>

fun uploaded :: "'n event \<Rightarrow> 'n uploadStatus list" where
  "uploaded (UploadEnded f r now date) =
     (case handleUploadPDF_resume r of Inr res \<Rightarrow> [newStatus f res now date] | Inl e \<Rightarrow> [])"
| "uploaded e = []"

text \<open>
  The status line as the specification describes it, a fixed sequence of messages on
  thresholds of the time passed since the submission: the message on display \<open>e\<close>
  milliseconds after it, with the thresholds the three delays of the source give.
\<close>

definition statusSchedule :: "nat \<Rightarrow> string" where
  "statusSchedule e =
     (if e < 30000 then msgThinking
      else if e < 90000 then msgSkimming
      else if e < 210000 then msgSorry
      else msgTrying)"

text \<open>The time an event takes, and the two events that begin and end a submission.\<close>

fun elapsed :: "'n event \<Rightarrow> nat" where
  "elapsed (Elapsed d) = d"
| "elapsed e = 0"

fun isQueryEnded :: "'n event \<Rightarrow> bool" where
  "isQueryEnded (QueryEnded cl r now date) = True"
| "isQueryEnded e = False"

fun isSubmitted :: "'n event \<Rightarrow> bool" where
  "isSubmitted Submitted = True"
| "isSubmitted e = False"

fun isNewChatClicked :: "'n event \<Rightarrow> bool" where
  "isNewChatClicked NewChatClicked = True"
| "isNewChatClicked e = False"

text \<open>The timeouts of one submission that are still pending \<open>e\<close> milliseconds after it.\<close>

definition pendingAfter :: "nat \<Rightarrow> (nat \<times> string) list" where
  "pendingAfter e =
     map (\<lambda>(t, msg). (t - e, msg))
       (filter (\<lambda>(t, msg). e < t)
          [(30 * 1000, msgSkimming), (90 * 1000, msgSorry), (210 * 1000, msgTrying)])"

section \<open>Example inputs\<close>

text \<open>Three notifications, one conversation entry, a file, a state ready to submit and
  the body of a successful upload: the inputs the examples below are evaluated on.\<close>

definition exampleStatuses :: "32 word uploadStatus list" where
  "exampleStatuses =
     [\<lparr>us_id = ''17'', us_filename = ''a.pdf'', us_message = Val (JStr ''ok''),
        us_pagesExtracted = Val (JNum 3), us_chunksCreated = Val (JNum 7), us_timestamp = 17\<rparr>,
      \<lparr>us_id = ''42'', us_filename = ''b.pdf'', us_message = Val (JStr ''ok''),
        us_pagesExtracted = Val (JNum 1), us_chunksCreated = Val (JNum 2), us_timestamp = 42\<rparr>,
      \<lparr>us_id = ''58'', us_filename = ''a.pdf'', us_message = Val (JStr ''ok''),
        us_pagesExtracted = Val (JNum 3), us_chunksCreated = Val (JNum 7), us_timestamp = 58\<rparr>]"

definition exampleMessages :: "32 word message list" where
  "exampleMessages =
     [\<lparr>msg_id = ''5'', msg_query = ''why?'', msg_response = Val (JStr ''because''),
        msg_timestamp = 5\<rparr>]"

definition exampleFile :: upload_file where
  "exampleFile = \<lparr>file_name = ''c.pdf'', file_type = ''application/pdf''\<rparr>"

definition exampleUploadBody :: "32 word json" where
  "exampleUploadBody =
     JObj [(''message'', JStr ''ok''), (''pages_extracted'', JNum 3), (''chunks_created'', JNum 7)]"

definition exampleAsk :: "32 word state" where
  "exampleAsk = initial\<lparr>sessionId := Val (JStr ''s1''), query := ''why?''\<rparr>"

definition exampleClosure :: "32 word query_closure" where
  "exampleClosure = \<lparr>cl_query = ''why?'', cl_messages = []\<rparr>"

text \<open>
  A state with one earlier exchange, the answer of a backend that has no document, and
  the body of an answer with status 500: \<open>{"detail":"Internal Server Error"}\<close>, with the
  text \<open>JSON.stringify\<close> gives for it.
\<close>

definition exampleAskAgain :: "32 word state" where
  "exampleAskAgain = exampleAsk\<lparr>messages := exampleMessages\<rparr>"

definition exampleAnswer :: "32 word json" where
  "exampleAnswer = JObj [(''type'', JStr ''error''), (''response'', JStr ''No documents yet.'')]"

definition exampleErrorBody :: "32 word json" where
  "exampleErrorBody = JObj [(''detail'', JStr ''Internal Server Error'')]"

definition exampleErrorText :: string where
  "exampleErrorText = ''{'' @ [CHR 0x22] @ ''detail'' @ [CHR 0x22] @ '':'' @ [CHR 0x22]
     @ ''Internal Server Error'' @ [CHR 0x22] @ ''}''"

section \<open>Basic facts about the handlers\<close>

lemma run_Nil: "run P [] s = s"
  by (simp add: run_def)

lemma run_Cons: "run P (e # evs) s = run P evs (step P e s)"
  by (simp add: run_def)

lemma setIsProcessingQuery_frame:
  "messages (setIsProcessingQuery b s) = messages s"
  "uploadStatuses (setIsProcessingQuery b s) = uploadStatuses s"
  "sessionId (setIsProcessingQuery b s) = sessionId s"
  "isUploading (setIsProcessingQuery b s) = isUploading s"
  "query (setIsProcessingQuery b s) = query s"
  "currentQuery (setIsProcessingQuery b s) = currentQuery s"
  "uploadingFile (setIsProcessingQuery b s) = uploadingFile s"
  "isProcessingQuery (setIsProcessingQuery b s) = b"
  by (auto simp: setIsProcessingQuery_def)

lemma handleSubmit_rejected:
  "blank (query s) \<or> isUploading s \<or> isProcessingQuery s \<Longrightarrow> handleSubmit P s = (s, [], None)"
  by (auto simp: handleSubmit_def)

lemma handleSubmit_no_session:
  "\<not> blank (query s) \<Longrightarrow> \<not> isUploading s \<Longrightarrow> \<not> isProcessingQuery s \<Longrightarrow>
   \<not> truthy P (sessionId s) \<Longrightarrow>
     handleSubmit P s
     = (s\<lparr>query := [], processingMessage := msgThinking, timers := []\<rparr>,
        [ConsoleError ''No session ID available''], None)"
  by (simp add: handleSubmit_def handleSubmitQuery_start_def setIsProcessingQuery_def)

lemma handleSubmit_accepted:
  "\<not> blank (query s) \<Longrightarrow> \<not> isUploading s \<Longrightarrow> \<not> isProcessingQuery s \<Longrightarrow>
   truthy P (sessionId s) \<Longrightarrow>
     handleSubmit P s
     = (s\<lparr>isProcessingQuery := True, processingMessage := msgThinking, timers := pendingAfter 0,
          currentQuery := query s\<rparr>,
        [FetchQuery (query s) (sessionId s)],
        Some \<lparr>cl_query = query s, cl_messages = messages s\<rparr>)"
  by (simp add: handleSubmit_def handleSubmitQuery_start_def setIsProcessingQuery_def
      pendingAfter_def)

lemma handleSubmit_resume_state:
  "fst (handleSubmit_resume P cl r now date s)
   = setIsProcessingQuery False
       (s\<lparr>messages := messages (fst (handleSubmitQuery_resume P cl r now date s)), query := []\<rparr>)"
  by (simp add: handleSubmit_resume_def handleSubmitQuery_resume_def split: sum.splits prod.splits)

lemma resume_idle:
  "\<not> isProcessingQuery (fst (handleSubmit_resume P cl r now date s))"
  "isProcessingQuery s \<Longrightarrow> timers (fst (handleSubmit_resume P cl r now date s)) = []"
  "processingMessage (fst (handleSubmit_resume P cl r now date s)) = processingMessage s"
  by (simp_all add: handleSubmit_resume_state setIsProcessingQuery_def)

lemma advance_frame:
  "isProcessingQuery (advance d s) = isProcessingQuery s"
  "messages (advance d s) = messages s"
  "uploadStatuses (advance d s) = uploadStatuses s"
  by (simp_all add: advance_def)

lemma advance_idle: "timers s = [] \<Longrightarrow> advance d s = s"
  by (simp add: advance_def)

section \<open>Submitting a query\<close>

lemma step_keeps_messages:
  assumes "\<not> isQueryEnded ev" and "\<not> isNewChatClicked ev"
  shows "messages (step P ev s) = messages s"
proof (cases ev)
  case Submitted
  then show ?thesis
    by (auto simp: handleSubmit_def handleSubmitQuery_start_def setIsProcessingQuery_frame)
next
  case (FileSelected sel)
  then show ?thesis
    by (auto simp: handleFileUpload_def handleUploadPDF_start_def split: option.splits)
next
  case (UploadEnded f r now date)
  then show ?thesis
    by (auto simp: handleFileUpload_resume_def split: sum.splits)
next
  case (SessionEnded r)
  then show ?thesis
    by (auto simp: createNewSession_resume_def split: fetch_result.splits option.splits sum.splits)
qed (use assms in \<open>simp_all add: removeStatus_def advance_frame\<close>)

lemma run_keeps_messages:
  "\<forall>ev \<in> set evs. \<not> isQueryEnded ev \<and> \<not> isNewChatClicked ev \<Longrightarrow>
   messages (run P evs s) = messages s"
proof (induction evs arbitrary: s)
  case Nil
  then show ?case by (simp add: run_Nil)
next
  case (Cons ev evs)
  then show ?case
    by (simp add: run_Cons step_keeps_messages)
qed

text \<open>
  C1, as the code has it by design. When the query holds a character that is not white
  space, a session is present and neither flag is set, \<open>handleSubmit\<close> sends exactly one
  request and suspends. Through whatever happens while the request is in flight, short
  of a new chat, the conversation stays as it is; and when the request ends, however it
  ends, the conversation of that moment gains exactly one entry, at its end, whose query
  is the one submitted. When the request ends with a success status, a JSON body and a
  synthesis that does not throw, the response of that entry is the text synthesized.
\<close>

theorem submit_appends_one_message:
  assumes "\<not> blank (query s)" and "truthy P (sessionId s)"
    and "\<not> isUploading s" and "\<not> isProcessingQuery s"
    and "\<forall>ev \<in> set evs. \<not> isQueryEnded ev \<and> \<not> isNewChatClicked ev"
  shows "snd (handleSubmit P s)
           = ([FetchQuery (query s) (sessionId s)],
              Some \<lparr>cl_query = query s, cl_messages = messages s\<rparr>)
       \<and> messages (run P evs (fst (handleSubmit P s))) = messages s
       \<and> messages (step P (QueryEnded \<lparr>cl_query = query s, cl_messages = messages s\<rparr> r now date)
                     (run P evs (fst (handleSubmit P s))))
           = messages (run P evs (fst (handleSubmit P s))) @
             [\<lparr>msg_id = showNat now, msg_query = query s,
               msg_response =
                 msg_response (last (messages
                   (step P (QueryEnded \<lparr>cl_query = query s, cl_messages = messages s\<rparr> r now date)
                      (run P evs (fst (handleSubmit P s)))))),
               msg_timestamp = date\<rparr>]
       \<and> (synthesize P data = Inr responseText \<longrightarrow>
            msg_response (last (messages
              (step P (QueryEnded \<lparr>cl_query = query s, cl_messages = messages s\<rparr>
                         (Responded True (Some data)) now date)
                 (run P evs (fst (handleSubmit P s))))))
            = responseText)"
proof -
  let ?cl = "\<lparr>cl_query = query s, cl_messages = messages s\<rparr>"
  let ?s1 = "fst (handleSubmit P s)"
  have acc: "handleSubmit P s
      = (s\<lparr>isProcessingQuery := True, processingMessage := msgThinking,
           timers := pendingAfter 0, currentQuery := query s\<rparr>,
         [FetchQuery (query s) (sessionId s)], Some ?cl)"
    using assms(1-4) by (simp add: handleSubmit_accepted)
  have kept: "messages (run P evs ?s1) = messages s"
    using run_keeps_messages [OF assms(5), of P ?s1] acc by simp
  have ended: "messages (step P (QueryEnded ?cl r' now date) s')
      = messages s @
        [\<lparr>msg_id = showNat now, msg_query = query s,
          msg_response = (case queryOutcome P r' of Inr t \<Rightarrow> t | Inl e \<Rightarrow> Val (JStr warningText)),
          msg_timestamp = date\<rparr>]" for r' s'
    by (simp add: handleSubmit_resume_state setIsProcessingQuery_frame handleSubmitQuery_resume_def
        split: sum.splits)
  have ok: "queryOutcome P (Responded True (Some data)) = synthesize P data"
    by (simp add: queryOutcome_def)
  show ?thesis
    using acc kept ended ok by simp
qed

theorem submit_appends_one_message_witness:
  "\<not> blank (query exampleAskAgain) \<and> truthy uint32Platform (sessionId exampleAskAgain)
   \<and> \<not> isUploading exampleAskAgain \<and> \<not> isProcessingQuery exampleAskAgain
   \<and> list_all (\<lambda>ev. \<not> isQueryEnded ev \<and> \<not> isNewChatClicked ev)
       [Elapsed 1000, Dismissed ''42'', Submitted :: 32 word event]
   \<and> snd (handleSubmit uint32Platform exampleAskAgain)
       = ([FetchQuery ''why?'' (Val (JStr ''s1''))],
          Some \<lparr>cl_query = ''why?'', cl_messages = exampleMessages\<rparr>)
   \<and> synthesize uint32Platform exampleAnswer = Inr (Val (JStr ''No documents yet.''))
   \<and> messages (step uint32Platform
        (QueryEnded \<lparr>cl_query = ''why?'', cl_messages = exampleMessages\<rparr>
           (Responded True (Some exampleAnswer)) 17 18)
        (run uint32Platform [Elapsed 1000, Dismissed ''42'', Submitted]
           (fst (handleSubmit uint32Platform exampleAskAgain))))
       = exampleMessages @
         [\<lparr>msg_id = ''17'', msg_query = ''why?'', msg_response = Val (JStr ''No documents yet.''),
           msg_timestamp = 18\<rparr>]"
  using submit_appends_one_message
     [of exampleAskAgain uint32Platform "[Elapsed 1000, Dismissed ''42'', Submitted]"
         "Responded True (Some exampleAnswer)" 17 18 exampleAnswer "Val (JStr ''No documents yet.'')"]
  by (simp add: exampleAskAgain_def exampleAsk_def exampleAnswer_def initial_def asciiSpace_def
      space3_def run_def advance_def removeStatus_def
      handleSubmit_def handleSubmitQuery_start_def setIsProcessingQuery_def
      handleSubmit_resume_def handleSubmitQuery_resume_def
      queryOutcome_def synthesize_def getProp_def thenE_def showNat.simps digit_def)

text \<open>
  The claim as it is written fails in two ways. A query of one space is not empty, a
  session is present and nothing is in flight, and yet the submission is turned down: no
  request, no entry, no change. And when a new chat is asked for while the request is in
  flight, the conversation, empty by then, does not gain one entry when the request
  ends: the handler rebuilds the list from the entries it captured at the submission,
  and the earlier exchange is back.
\<close>

theorem submit_blank_or_new_chat_in_flight:
  "query (initial\<lparr>sessionId := Val (JStr ''s1''), query := '' ''\<rparr> :: 32 word state) \<noteq> []
   \<and> truthy uint32Platform
       (sessionId (initial\<lparr>sessionId := Val (JStr ''s1''), query := '' ''\<rparr> :: 32 word state))
   \<and> \<not> isUploading (initial\<lparr>sessionId := Val (JStr ''s1''), query := '' ''\<rparr> :: 32 word state)
   \<and> \<not> isProcessingQuery (initial\<lparr>sessionId := Val (JStr ''s1''), query := '' ''\<rparr> :: 32 word state)
   \<and> handleSubmit uint32Platform (initial\<lparr>sessionId := Val (JStr ''s1''), query := '' ''\<rparr>)
       = (initial\<lparr>sessionId := Val (JStr ''s1''), query := '' ''\<rparr>, [], None)
   \<and> messages (run uint32Platform [Submitted, NewChatClicked] exampleAskAgain) = []
   \<and> messages (run uint32Platform
        [Submitted, NewChatClicked,
         QueryEnded \<lparr>cl_query = ''why?'', cl_messages = exampleMessages\<rparr>
           (Responded True (Some exampleAnswer)) 17 18]
        exampleAskAgain)
       = exampleMessages @
         [\<lparr>msg_id = ''17'', msg_query = ''why?'', msg_response = Val (JStr ''No documents yet.''),
           msg_timestamp = 18\<rparr>]"
  by (simp add: exampleAskAgain_def exampleAsk_def exampleAnswer_def exampleMessages_def
      initial_def asciiSpace_def space3_def run_def
      handleSubmit_def handleSubmitQuery_start_def setIsProcessingQuery_def
      handleNewChat_def createNewSession_def
      handleSubmit_resume_def handleSubmitQuery_resume_def
      queryOutcome_def synthesize_def getProp_def thenE_def showNat.simps digit_def)

section \<open>Submissions that are turned down\<close>

text \<open>
  C2, as the code has it. A submission with a blank query, or while an upload or a query
  is in flight, changes nothing and sends nothing. A submission without a session sends
  no request either and leaves the conversation, the notifications, the session and both
  flags as they were; but when the other guards let it through, \<open>handleSubmit\<close> runs
  to its end and empties the text of the input.
\<close>

theorem submit_rejections:
  "(blank (query s) \<or> isUploading s \<or> isProcessingQuery s \<longrightarrow> handleSubmit P s = (s, [], None))
   \<and> (\<not> truthy P (sessionId s) \<longrightarrow>
        list_all (\<lambda>eff. \<not> isFetch eff) (fst (snd (handleSubmit P s)))
      \<and> snd (snd (handleSubmit P s)) = None
      \<and> messages (fst (handleSubmit P s)) = messages s
      \<and> uploadStatuses (fst (handleSubmit P s)) = uploadStatuses s
      \<and> sessionId (fst (handleSubmit P s)) = sessionId s
      \<and> isUploading (fst (handleSubmit P s)) = isUploading s
      \<and> isProcessingQuery (fst (handleSubmit P s)) = isProcessingQuery s)
   \<and> (\<not> truthy P (sessionId s) \<and> \<not> blank (query s) \<and> \<not> isUploading s
        \<and> \<not> isProcessingQuery s \<longrightarrow>
        query (fst (handleSubmit P s)) = [])"
proof (cases "blank (query s) \<or> isUploading s \<or> isProcessingQuery s")
  case True
  then show ?thesis
    using handleSubmit_rejected [of s P] by auto
next
  case False
  show ?thesis
  proof (cases "truthy P (sessionId s)")
    case True
    with False show ?thesis by simp
  next
    case absent: False
    with False have "handleSubmit P s
        = (s\<lparr>query := [], processingMessage := msgThinking, timers := []\<rparr>,
           [ConsoleError ''No session ID available''], None)"
      by (simp add: handleSubmit_no_session)
    with False absent show ?thesis by simp
  qed
qed

theorem submit_rejections_witness:
  "isUploading (exampleAsk\<lparr>isUploading := True\<rparr>)
   \<and> handleSubmit uint32Platform (exampleAsk\<lparr>isUploading := True\<rparr>)
       = (exampleAsk\<lparr>isUploading := True\<rparr>, [], None)
   \<and> \<not> truthy uint32Platform (sessionId (initial\<lparr>query := ''hi''\<rparr> :: 32 word state))
   \<and> handleSubmit uint32Platform (initial\<lparr>query := ''hi''\<rparr>)
       = (initial, [ConsoleError ''No session ID available''], None)"
  using submit_rejections [of "exampleAsk\<lparr>isUploading := True\<rparr>" uint32Platform]
    submit_rejections [of "initial\<lparr>query := ''hi''\<rparr>" uint32Platform]
  by (simp add: exampleAsk_def initial_def handleSubmit_def handleSubmitQuery_start_def
      setIsProcessingQuery_def asciiSpace_def)

text \<open>
  The claim as it is written has no state change when the session is absent. With the
  text \<open>hi\<close> typed and no session, the submission empties the input.
\<close>

theorem submit_without_session_clears_query:
  "\<not> truthy uint32Platform (sessionId (initial\<lparr>query := ''hi''\<rparr> :: 32 word state))
   \<and> query (initial\<lparr>query := ''hi''\<rparr> :: 32 word state) = ''hi''
   \<and> query (fst (handleSubmit uint32Platform (initial\<lparr>query := ''hi''\<rparr>))) = []
   \<and> fst (handleSubmit uint32Platform (initial\<lparr>query := ''hi''\<rparr>)) \<noteq> initial\<lparr>query := ''hi''\<rparr>"
  by (simp add: initial_def handleSubmit_def handleSubmitQuery_start_def setIsProcessingQuery_def
      asciiSpace_def)

section \<open>Envelopes of an unexpected shape\<close>

text \<open>
  C3, as the code has it. For a payload other than \<open>null\<close> whose \<open>type\<close> is none of
  the five tags the dispatch knows, the synthesis does not throw: the response is the
  payload's \<open>response\<close> field when that is truthy and the payload's serialized form
  otherwise. A payload on which the synthesis does throw is tolerated one level up:
  \<open>handleSubmitQuery\<close> catches the error and appends the warning entry.
\<close>

theorem unrecognised_envelope_falls_back:
  assumes "data \<noteq> JNull"
    and "readProp data ''type'' \<noteq> Val (JStr ''full_pdf_summary'')"
    and "readProp data ''type'' \<noteq> Val (JStr ''page_summary'')"
    and "readProp data ''type'' \<noteq> Val (JStr ''concept_search'')"
    and "readProp data ''type'' \<noteq> Val (JStr ''serp_fallback'')"
    and "readProp data ''type'' \<noteq> Val (JStr ''error'')"
  shows "synthesize P data
           = Inr (if truthy P (readProp data ''response'') then readProp data ''response''
                  else Val (JStr (stringify P data)))
       \<and> (synthesize P other = Inl e \<longrightarrow>
            messages (fst (handleSubmitQuery_resume P cl (Responded ok (Some other)) now date s))
            = cl_messages cl @
              [\<lparr>msg_id = showNat now, msg_query = cl_query cl,
                msg_response = Val (JStr warningText), msg_timestamp = date\<rparr>])"
  using assms
  by (simp add: synthesize_def getProp_def thenE_def handleSubmitQuery_resume_def queryOutcome_def)

theorem unrecognised_envelope_falls_back_witness:
  "readProp (JObj [(''detail'', JStr ''Not Found'')] :: 32 word json) ''type'' = Undefined
   \<and> readProp (JObj [(''type'', JStr ''chat''), (''response'', JStr ''Hello'')] :: 32 word json) ''type''
     = Val (JStr ''chat'')
   \<and> synthesize uint32Platform (JObj [(''detail'', JStr ''Not Found'')])
     = Inr (Val (JStr (''{'' @ [CHR 0x22] @ ''detail'' @ [CHR 0x22] @ '':''
                       @ [CHR 0x22] @ ''Not Found'' @ [CHR 0x22] @ ''}'')))
   \<and> synthesize uint32Platform (JObj [(''type'', JStr ''chat''), (''response'', JStr ''Hello'')])
     = Inr (Val (JStr ''Hello''))
   \<and> messages (fst (handleSubmitQuery_resume uint32Platform exampleClosure
         (Responded True (Some (JObj [(''type'', JStr ''full_pdf_summary'')]))) 17 18 initial))
     = [\<lparr>msg_id = ''17'', msg_query = ''why?'', msg_response = Val (JStr warningText),
         msg_timestamp = 18\<rparr>]"
  using unrecognised_envelope_falls_back
      [of "JObj [(''detail'', JStr ''Not Found'')]" uint32Platform
          "JObj [(''type'', JStr ''full_pdf_summary'')]" TypeError exampleClosure True 17 18 initial]
    unrecognised_envelope_falls_back
      [of "JObj [(''type'', JStr ''chat''), (''response'', JStr ''Hello'')]" uint32Platform]
  by (simp add: synthesize_def getProp_def thenE_def arrayMap_def quoteJSONString_def quoteChar_def
      exampleClosure_def showNat.simps digit_def)

text \<open>
  The claim as it is written has the synthesis fall back and never throw on every
  malformed envelope. A summary envelope without its \<open>summaries\<close>, a search envelope
  whose \<open>results\<close> is \<open>null\<close>, and the payload \<open>null\<close> each make it throw.
\<close>

theorem malformed_envelope_throws:
  "synthesize uint32Platform (JObj [(''type'', JStr ''full_pdf_summary'')]) = Inl TypeError
   \<and> synthesize uint32Platform
       (JObj [(''type'', JStr ''concept_search''), (''expert_summary'', JStr ''E''),
              (''core_keyword'', JStr ''K''), (''results'', JNull)]) = Inl TypeError
   \<and> synthesize uint32Platform JNull = Inl TypeError"
  by (simp add: synthesize_def getProp_def thenE_def arrayMap_def preamble_def template_def)

section \<open>A query that fails\<close>

text \<open>
  C4. The claim is that every query that fails ends in the warning entry; the
  specification counts an answer with a status that is not a success among the
  failures. \<open>handleSubmitQuery\<close> never reads \<open>response.ok\<close> (\<open>handleUploadPDF\<close>, beside
  it, does, and throws). An answer with status 500 and the body
  \<open>{"detail":"Internal Server Error"}\<close> to the query \<open>why?\<close> goes through the dispatch
  as an envelope of unknown type: the entry appended shows the serialized body, not the
  warning, and nothing is logged. The same answer to an upload is a failure.
\<close>

theorem query_http_error_shows_body:
  "handleSubmit_resume uint32Platform exampleClosure (Responded False (Some exampleErrorBody)) 17 18
     (fst (handleSubmit uint32Platform exampleAsk))
   = (initial\<lparr>sessionId := Val (JStr ''s1''), currentQuery := ''why?'',
        messages := [\<lparr>msg_id = ''17'', msg_query = ''why?'',
                      msg_response = Val (JStr exampleErrorText), msg_timestamp = 18\<rparr>]\<rparr>,
      [])
   \<and> exampleErrorText \<noteq> warningText
   \<and> handleUploadPDF_resume (Responded False (Some exampleErrorBody)) = Inl UploadFailed"
  by (simp add: exampleAsk_def exampleClosure_def exampleErrorBody_def exampleErrorText_def
      warningText_def initial_def asciiSpace_def space3_def
      handleSubmit_def handleSubmitQuery_start_def setIsProcessingQuery_def
      handleSubmit_resume_def handleSubmitQuery_resume_def handleUploadPDF_resume_def
      queryOutcome_def synthesize_def getProp_def thenE_def uint32Platform_def
      quoteJSONString_def quoteChar_def showNat.simps digit_def)

section \<open>An upload that fails\<close>



section \<open>A web search without results\<close>

text \<open>
  C6, as the code has it. For an envelope tagged \<open>serp_fallback\<close> whose \<open>serp_results\<close>
  is absent, \<open>null\<close> or the empty list, and whose \<open>expert_summary\<close> and \<open>core_keyword\<close>
  convert to strings, the synthesis does not throw: the response text is the preamble
  (expert summary, core keyword, the heading of the web results) followed by the line
  \<open>No results found.\<close>
\<close>

theorem serp_fallback_no_results:
  assumes "readProp data ''type'' = Val (JStr ''serp_fallback'')"
    and "readProp data ''serp_results'' = Undefined
       \<or> readProp data ''serp_results'' = Val JNull
       \<or> readProp data ''serp_results'' = Val (JArr [])"
    and "toStrV P (readProp data ''expert_summary'') = Inr es"
    and "toStrV P (readProp data ''core_keyword'') = Inr ck"
  shows "synthesize P data
         = Inr (Val (JStr (''**Expert Summary:**'' @ NL @ es @ NL @ NL @ ''**Core Keyword:** '' @ ck
                           @ NL @ NL @ ''**Web Results:**'' @ NL @ NL @ ''No results found.'')))"
proof -
  from assms(1) have "data \<noteq> JNull" by auto
  then have ty: "getProp data ''type'' = Inr (Val (JStr ''serp_fallback''))"
    using assms(1) by (simp add: getProp_def)
  have pre: "preamble P data ''**Web Results:**''
      = Inr (''**Expert Summary:**'' @ NL @ es @ NL @ NL @ ''**Core Keyword:** '' @ ck
             @ NL @ NL @ ''**Web Results:**'' @ NL @ NL)"
    using assms(3,4) by (simp add: preamble_def template_def thenE_def)
  from assms(2) show ?thesis
    by (auto simp: synthesize_def ty pre thenE_def arrayMap_def mapE_def)
qed

theorem serp_fallback_no_results_witness:
  "toStrV uint32Platform (Val (JStr ''E'')) = Inr ''E''
   \<and> toStrV uint32Platform Undefined = Inr ''undefined''
   \<and> synthesize uint32Platform
     (JObj [(''type'', JStr ''serp_fallback''), (''expert_summary'', JStr ''E''),
            (''core_keyword'', JStr ''K''), (''serp_results'', JArr [])])
   = Inr (Val (JStr (''**Expert Summary:**'' @ NL @ ''E'' @ NL @ NL @ ''**Core Keyword:** K''
                     @ NL @ NL @ ''**Web Results:**'' @ NL @ NL @ ''No results found.'')))
   \<and> synthesize uint32Platform (JObj [(''type'', JStr ''serp_fallback'')])
   = Inr (Val (JStr (''**Expert Summary:**'' @ NL @ ''undefined'' @ NL @ NL
                     @ ''**Core Keyword:** undefined''
                     @ NL @ NL @ ''**Web Results:**'' @ NL @ NL @ ''No results found.'')))"
  using serp_fallback_no_results
      [of "JObj [(''type'', JStr ''serp_fallback''), (''expert_summary'', JStr ''E''),
                 (''core_keyword'', JStr ''K''), (''serp_results'', JArr [])]"
          uint32Platform "''E''" "''K''"]
    serp_fallback_no_results
      [of "JObj [(''type'', JStr ''serp_fallback'')]" uint32Platform "''undefined''" "''undefined''"]
  by simp

text \<open>
  The claim as it is written has no throw whenever the list is empty or absent. With an
  empty list and an \<open>expert_summary\<close> that is the object \<open>{"toString": null}\<close>, the
  template literal of the preamble throws.
\<close>

theorem serp_fallback_preamble_throws:
  "readProp (JObj [(''type'', JStr ''serp_fallback''),
                   (''expert_summary'', JObj [(''toString'', JNull)]),
                   (''core_keyword'', JStr ''K''), (''serp_results'', JArr [])] :: 32 word json)
     ''serp_results'' = Val (JArr [])
   \<and> synthesize uint32Platform
       (JObj [(''type'', JStr ''serp_fallback''),
              (''expert_summary'', JObj [(''toString'', JNull)]),
              (''core_keyword'', JStr ''K''), (''serp_results'', JArr [])])
     = Inl TypeError"
  by (simp add: synthesize_def getProp_def thenE_def preamble_def template_def)

section \<open>A new chat\<close>

text \<open>
  C7, as the code has it by design. \<open>handleNewChat\<close> empties the conversation at once,
  leaves every notification in place and asks the backend for a session; the answer
  touches neither list. When the answer has a success status and a JSON body other than
  \<open>null\<close>, the session becomes the \<open>session_id\<close> field of that body; when the request is
  rejected, or the body of the answer is not JSON or is \<open>null\<close>, the state stays as it
  is, the previous session included.
\<close>

theorem new_chat_clears_conversation:
  "handleNewChat s = (s\<lparr>messages := [], currentQuery := []\<rparr>, [FetchNewChat])
   \<and> messages (fst (handleNewChat s)) = []
   \<and> uploadStatuses (fst (handleNewChat s)) = uploadStatuses s
   \<and> messages (fst (createNewSession_resume r s')) = messages s'
   \<and> uploadStatuses (fst (createNewSession_resume r s')) = uploadStatuses s'
   \<and> (data \<noteq> JNull \<longrightarrow>
        fst (createNewSession_resume (Responded True (Some data)) s')
        = s'\<lparr>sessionId := readProp data ''session_id''\<rparr>)
   \<and> (r = Rejected \<or> r = Responded ok None \<or> r = Responded ok (Some JNull) \<longrightarrow>
        fst (createNewSession_resume r s') = s')"
  by (auto simp: handleNewChat_def createNewSession_def createNewSession_resume_def getProp_def
      split: fetch_result.splits option.splits)

theorem new_chat_clears_conversation_witness:
  "fst (createNewSession_resume (Responded True (Some (JObj [(''session_id'', JStr ''s2'')])))
      (fst (handleNewChat (initial\<lparr>sessionId := Val (JStr ''s1''), messages := exampleMessages,
         uploadStatuses := exampleStatuses\<rparr>))))
   = initial\<lparr>sessionId := Val (JStr ''s2''), uploadStatuses := exampleStatuses\<rparr>
   \<and> fst (createNewSession_resume (Responded False None)
      (fst (handleNewChat (initial\<lparr>sessionId := Val (JStr ''s1''), messages := exampleMessages,
         uploadStatuses := exampleStatuses\<rparr>))))
   = initial\<lparr>sessionId := Val (JStr ''s1''), uploadStatuses := exampleStatuses\<rparr>"
  using new_chat_clears_conversation
     [of "initial\<lparr>sessionId := Val (JStr ''s1''), messages := exampleMessages,
         uploadStatuses := exampleStatuses\<rparr>"
       "Responded False None"
       "fst (handleNewChat (initial\<lparr>sessionId := Val (JStr ''s1''), messages := exampleMessages,
         uploadStatuses := exampleStatuses\<rparr>))"
       "JObj [(''session_id'', JStr ''s2'')]" False]
  by (simp add: initial_def handleNewChat_def createNewSession_def createNewSession_resume_def
      getProp_def)

text \<open>
  The claim as it is written has every new chat yield a new, different session. When
  the request for the session is rejected, the conversation is empty and the session is
  the old one.
\<close>

theorem new_chat_keeps_session_on_failure:
  "messages (fst (createNewSession_resume Rejected
       (fst (handleNewChat (initial\<lparr>sessionId := Val (JStr ''s1''), messages := exampleMessages\<rparr>)))))
     = []
   \<and> sessionId (fst (createNewSession_resume Rejected
       (fst (handleNewChat (initial\<lparr>sessionId := Val (JStr ''s1''), messages := exampleMessages\<rparr>)))))
     = sessionId (initial\<lparr>sessionId := Val (JStr ''s1''), messages := exampleMessages\<rparr>)"
  by (simp add: handleNewChat_def createNewSession_def createNewSession_resume_def)

section \<open>Dismissing a notification\<close>

lemma filter_distinct_nth:
  "distinct (map f xs) \<Longrightarrow> i < length xs \<Longrightarrow>
     filter (\<lambda>x. f x \<noteq> f (xs ! i)) xs = take i xs @ drop (Suc i) xs"
proof (induction xs arbitrary: i)
  case Nil
  then show ?case by simp
next
  case (Cons x xs)
  have "f x \<notin> f ` set xs"
    using Cons.prems(1) by simp
  then have other: "\<forall>y \<in> set xs. f y \<noteq> f x"
    by (metis imageI)
  show ?case
  proof (cases i)
    case 0
    from other have "filter (\<lambda>y. f y \<noteq> f x) xs = xs"
      by (simp add: filter_id_conv)
    with 0 show ?thesis by simp
  next
    case (Suc j)
    with Cons.prems have j: "j < length xs" and d: "distinct (map f xs)"
      by simp_all
    from other j have "f (xs ! j) \<noteq> f x"
      by (metis nth_mem)
    then show ?thesis
      using Suc Cons.IH [OF d j] by simp
  qed
qed

text \<open>
  C8. When the identifiers of the notifications are pairwise different, dismissing the
  notification at any position \<open>i\<close> of the list by its identifier leaves the list with
  exactly that entry taken out: the entries before it and after it stay, in their order,
  and nothing else of the state changes.
\<close>

theorem removeStatus_removes_exactly:
  assumes "distinct (map us_id (uploadStatuses s))"
    and "i < length (uploadStatuses s)"
  shows "removeStatus (us_id (uploadStatuses s ! i)) s =
           s\<lparr>uploadStatuses := take i (uploadStatuses s) @ drop (Suc i) (uploadStatuses s)\<rparr>"
  using filter_distinct_nth [OF assms] by (simp add: removeStatus_def)

theorem removeStatus_removes_exactly_witness:
  "distinct (map us_id (uploadStatuses (initial\<lparr>uploadStatuses := exampleStatuses\<rparr>)))
   \<and> (1::nat) < length (uploadStatuses (initial\<lparr>uploadStatuses := exampleStatuses\<rparr>))
   \<and> removeStatus ''42'' (initial\<lparr>uploadStatuses := exampleStatuses\<rparr>)
     = initial\<lparr>uploadStatuses := [exampleStatuses ! 0, exampleStatuses ! 2]\<rparr>"
  using removeStatus_removes_exactly [of "initial\<lparr>uploadStatuses := exampleStatuses\<rparr>" 1]
  by (simp add: exampleStatuses_def)

section \<open>The status line while a query is in flight\<close>

lemma advance_pending:
  "timers s = pendingAfter e \<Longrightarrow> processingMessage s = statusSchedule e \<Longrightarrow>
     timers (advance d s) = pendingAfter (e + d)
     \<and> processingMessage (advance d s) = statusSchedule (e + d)"
  by (auto simp: advance_def pendingAfter_def statusSchedule_def)

lemma step_while_submitting:
  assumes "\<not> isQueryEnded ev" and "isProcessingQuery s"
    and "timers s = pendingAfter e" and "processingMessage s = statusSchedule e"
  shows "isProcessingQuery (step P ev s) \<and> timers (step P ev s) = pendingAfter (e + elapsed ev)
       \<and> processingMessage (step P ev s) = statusSchedule (e + elapsed ev)"
proof (cases ev)
  case (Elapsed d)
  then show ?thesis
    using assms advance_pending [of s e d] by (simp add: advance_frame)
next
  case Submitted
  then show ?thesis
    using assms by (simp add: handleSubmit_rejected)
next
  case (FileSelected sel)
  then show ?thesis
    using assms by (auto simp: handleFileUpload_def handleUploadPDF_start_def split: option.splits)
next
  case (UploadEnded f r now date)
  then show ?thesis
    using assms by (auto simp: handleFileUpload_resume_def split: sum.splits)
next
  case (SessionEnded r)
  then show ?thesis
    using assms
    by (auto simp: createNewSession_resume_def split: fetch_result.splits option.splits sum.splits)
qed (use assms in \<open>simp_all add: removeStatus_def handleNewChat_def createNewSession_def\<close>)

lemma run_while_submitting:
  "\<forall>ev \<in> set evs. \<not> isQueryEnded ev \<Longrightarrow> isProcessingQuery s \<Longrightarrow>
   timers s = pendingAfter e \<Longrightarrow> processingMessage s = statusSchedule e \<Longrightarrow>
   isProcessingQuery (run P evs s)
   \<and> timers (run P evs s) = pendingAfter (e + sum_list (map elapsed evs))
   \<and> processingMessage (run P evs s) = statusSchedule (e + sum_list (map elapsed evs))"
proof (induction evs arbitrary: s e)
  case Nil
  then show ?case by (simp add: run_Nil)
next
  case (Cons ev evs)
  from Cons.prems have ne: "\<not> isQueryEnded ev" and rest: "\<forall>x \<in> set evs. \<not> isQueryEnded x"
    by simp_all
  note st = step_while_submitting [OF ne Cons.prems(2,3,4), of P]
  show ?case
    using Cons.IH [OF rest, of "step P ev s" "e + elapsed ev"] st
    by (simp add: run_Cons add.assoc)
qed

lemma step_while_idle:
  assumes "\<not> isSubmitted ev" and "\<not> isProcessingQuery s" and "timers s = []"
  shows "\<not> isProcessingQuery (step P ev s) \<and> timers (step P ev s) = []
       \<and> processingMessage (step P ev s) = processingMessage s"
proof (cases ev)
  case (Elapsed d)
  then show ?thesis using assms by (simp add: advance_idle)
next
  case (QueryEnded cl r now date)
  then show ?thesis
    using assms by (simp add: handleSubmit_resume_state setIsProcessingQuery_def)
next
  case (FileSelected sel)
  then show ?thesis
    using assms by (auto simp: handleFileUpload_def handleUploadPDF_start_def split: option.splits)
next
  case (UploadEnded f r now date)
  then show ?thesis
    using assms by (auto simp: handleFileUpload_resume_def split: sum.splits)
next
  case (SessionEnded r)
  then show ?thesis
    using assms
    by (auto simp: createNewSession_resume_def split: fetch_result.splits option.splits sum.splits)
qed (use assms in \<open>simp_all add: removeStatus_def handleNewChat_def createNewSession_def\<close>)

lemma run_while_idle:
  "\<forall>ev \<in> set evs. \<not> isSubmitted ev \<Longrightarrow> \<not> isProcessingQuery s \<Longrightarrow> timers s = [] \<Longrightarrow>
   processingMessage (run P evs s) = processingMessage s \<and> timers (run P evs s) = []"
proof (induction evs arbitrary: s)
  case Nil
  then show ?case by (simp add: run_Nil)
next
  case (Cons ev evs)
  from Cons.prems have ne: "\<not> isSubmitted ev" and rest: "\<forall>x \<in> set evs. \<not> isSubmitted x"
    by simp_all
  note st = step_while_idle [OF ne Cons.prems(2,3), of P]
  show ?case
    using Cons.IH [OF rest, of "step P ev s"] st by (simp add: run_Cons)
qed

text \<open>
  C9. Time is counted in milliseconds, a timeout fires when its delay has passed, and
  the cleanup of the effect runs with the update that clears the flag. After a
  submission that is accepted, and through any events before the query ends (time
  passing among them), the status line shows the message the schedule gives for the
  time passed since the submission: the first message up to 30 seconds, the second up
  to 90, the third up to 210, the fourth from then on. When the query ends, however it
  ends, no timeout is left pending, and through any later events up to the next
  submission the status line stays as it was at that moment.
\<close>

theorem status_cycle_while_submitting:
  assumes "\<not> blank (query s)" and "\<not> isUploading s" and "\<not> isProcessingQuery s"
    and "truthy P (sessionId s)"
    and "\<forall>ev \<in> set evs. \<not> isQueryEnded ev"
    and "\<forall>ev \<in> set evs'. \<not> isSubmitted ev"
  shows "processingMessage (run P evs (fst (handleSubmit P s)))
           = statusSchedule (sum_list (map elapsed evs))
       \<and> timers (step P (QueryEnded cl r now date) (run P evs (fst (handleSubmit P s)))) = []
       \<and> processingMessage
           (run P evs' (step P (QueryEnded cl r now date) (run P evs (fst (handleSubmit P s)))))
           = processingMessage (run P evs (fst (handleSubmit P s)))"
proof -
  let ?s1 = "fst (handleSubmit P s)"
  have s1: "isProcessingQuery ?s1" "timers ?s1 = pendingAfter 0"
    "processingMessage ?s1 = statusSchedule 0"
    using assms(1-4) by (simp_all add: handleSubmit_accepted statusSchedule_def)
  have a: "isProcessingQuery (run P evs ?s1)"
    "processingMessage (run P evs ?s1) = statusSchedule (sum_list (map elapsed evs))"
    using run_while_submitting [OF assms(5) s1, of P] by simp_all
  let ?s2 = "step P (QueryEnded cl r now date) (run P evs ?s1)"
  have b: "\<not> isProcessingQuery ?s2" "timers ?s2 = []"
    "processingMessage ?s2 = processingMessage (run P evs ?s1)"
    using a(1) by (simp_all add: resume_idle)
  from run_while_idle [OF assms(6) b(1,2), of P] a b show ?thesis by simp
qed

theorem status_cycle_while_submitting_witness:
  "\<not> blank (query exampleAsk) \<and> \<not> isUploading exampleAsk \<and> \<not> isProcessingQuery exampleAsk
   \<and> truthy uint32Platform (sessionId exampleAsk)
   \<and> list_all (\<lambda>ev. \<not> isQueryEnded ev)
       [Elapsed 29999, Typed ''x'', Elapsed 1, Dismissed ''42'', Elapsed 70000 :: 32 word event]
   \<and> list_all (\<lambda>ev. \<not> isSubmitted ev) [Elapsed 500000, NewChatClicked :: 32 word event]
   \<and> processingMessage (run uint32Platform [Elapsed 29999] (fst (handleSubmit uint32Platform exampleAsk)))
       = msgThinking
   \<and> processingMessage (run uint32Platform [Elapsed 29999, Typed ''x'', Elapsed 1]
        (fst (handleSubmit uint32Platform exampleAsk)))
       = msgSkimming
   \<and> processingMessage
       (run uint32Platform [Elapsed 29999, Typed ''x'', Elapsed 1, Dismissed ''42'', Elapsed 70000]
          (fst (handleSubmit uint32Platform exampleAsk)))
       = msgSorry
   \<and> timers (step uint32Platform (QueryEnded exampleClosure Rejected 17 18)
       (run uint32Platform [Elapsed 29999, Typed ''x'', Elapsed 1, Dismissed ''42'', Elapsed 70000]
          (fst (handleSubmit uint32Platform exampleAsk))))
       = []
   \<and> processingMessage (run uint32Platform [Elapsed 500000, NewChatClicked]
       (step uint32Platform (QueryEnded exampleClosure Rejected 17 18)
         (run uint32Platform [Elapsed 29999, Typed ''x'', Elapsed 1, Dismissed ''42'', Elapsed 70000]
            (fst (handleSubmit uint32Platform exampleAsk)))))
       = msgSorry"
  using status_cycle_while_submitting
     [of exampleAsk uint32Platform
         "[Elapsed 29999, Typed ''x'', Elapsed 1, Dismissed ''42'', Elapsed 70000]"
         "[Elapsed 500000, NewChatClicked]" exampleClosure Rejected 17 18]
    status_cycle_while_submitting
     [of exampleAsk uint32Platform "[Elapsed 29999]" "[]" exampleClosure Rejected 17 18]
    status_cycle_while_submitting
     [of exampleAsk uint32Platform "[Elapsed 29999, Typed ''x'', Elapsed 1]" "[]"
         exampleClosure Rejected 17 18]
  by (simp add: exampleAsk_def initial_def statusSchedule_def asciiSpace_def space3_def)

section \<open>The order of the notifications\<close>

lemma step_uploads:
  "subseq (uploadStatuses (step P ev s)) (uploadStatuses s @ uploaded ev)"
proof (cases ev)
  case Submitted
  then show ?thesis
    by (auto simp: handleSubmit_def handleSubmitQuery_start_def setIsProcessingQuery_frame)
next
  case (QueryEnded cl r now date)
  then show ?thesis
    by (simp add: handleSubmit_resume_state setIsProcessingQuery_frame)
next
  case (FileSelected sel)
  then show ?thesis
    by (auto simp: handleFileUpload_def handleUploadPDF_start_def split: option.splits)
next
  case (UploadEnded f r now date)
  then show ?thesis
    by (auto simp: handleFileUpload_resume_def split: sum.splits)
next
  case (SessionEnded r)
  then show ?thesis
    by (auto simp: createNewSession_resume_def split: fetch_result.splits option.splits sum.splits)
next
  case (Dismissed i)
  then show ?thesis
    by (simp add: removeStatus_def)
qed (simp_all add: handleNewChat_def createNewSession_def advance_frame)

lemma run_uploads:
  "subseq (uploadStatuses (run P evs s)) (uploadStatuses s @ concat (map uploaded evs))"
proof (induction evs arbitrary: s)
  case Nil
  then show ?case by (simp add: run_Nil)
next
  case (Cons ev evs)
  have "subseq (uploadStatuses (run P evs (step P ev s)))
          (uploadStatuses (step P ev s) @ concat (map uploaded evs))"
    by (rule Cons.IH)
  moreover have "subseq (uploadStatuses (step P ev s) @ concat (map uploaded evs))
          ((uploadStatuses s @ uploaded ev) @ concat (map uploaded evs))"
    using step_uploads [of P ev s] by (intro list_emb_append_mono) simp_all
  ultimately have "subseq (uploadStatuses (run P evs (step P ev s)))
          ((uploadStatuses s @ uploaded ev) @ concat (map uploaded evs))"
    by (rule subseq_order.order_trans)
  then show ?case
    by (simp add: run_Cons)
qed

text \<open>
  C10. An upload that ends well puts its notification after all the notifications of
  that moment. Hence, through any sequence of events, the list of notifications is a
  subsequence of the notifications it started with followed by those the events created,
  in the order the uploads ended: dismissals take entries out, nothing reorders them.
\<close>

theorem uploads_in_completion_order:
  "(handleUploadPDF_resume r = Inr res \<longrightarrow>
      uploadStatuses (fst (handleFileUpload_resume f r now date s))
      = uploadStatuses s @ [newStatus f res now date])
   \<and> subseq (uploadStatuses (run P evs s)) (uploadStatuses s @ concat (map uploaded evs))"
  by (simp add: handleFileUpload_resume_def run_uploads)

theorem uploads_in_completion_order_witness:
  "handleUploadPDF_resume (Responded True (Some exampleUploadBody))
     = Inr (Val (JStr ''ok''), Val (JNum 3), Val (JNum 7))
   \<and> uploadStatuses (fst (handleFileUpload_resume exampleFile
        (Responded True (Some exampleUploadBody)) 61 62
        (initial\<lparr>uploadStatuses := exampleStatuses, isUploading := True,
           uploadingFile := Some ''c.pdf''\<rparr>)))
     = exampleStatuses @
       [\<lparr>us_id = ''61'', us_filename = ''c.pdf'', us_message = Val (JStr ''ok''),
         us_pagesExtracted = Val (JNum 3), us_chunksCreated = Val (JNum 7), us_timestamp = 62\<rparr>]
   \<and> uploadStatuses (run uint32Platform
        [UploadEnded exampleFile (Responded True (Some exampleUploadBody)) 61 62,
         Dismissed ''42'',
         UploadEnded \<lparr>file_name = ''d.pdf'', file_type = ''application/pdf''\<rparr> Rejected 70 70,
         UploadEnded \<lparr>file_name = ''e.pdf'', file_type = ''application/pdf''\<rparr>
           (Responded True (Some exampleUploadBody)) 75 75]
        (initial\<lparr>uploadStatuses := exampleStatuses\<rparr>))
     = [exampleStatuses ! 0, exampleStatuses ! 2,
        \<lparr>us_id = ''61'', us_filename = ''c.pdf'', us_message = Val (JStr ''ok''),
          us_pagesExtracted = Val (JNum 3), us_chunksCreated = Val (JNum 7), us_timestamp = 62\<rparr>,
        \<lparr>us_id = ''75'', us_filename = ''e.pdf'', us_message = Val (JStr ''ok''),
          us_pagesExtracted = Val (JNum 3), us_chunksCreated = Val (JNum 7), us_timestamp = 75\<rparr>]"
  using uploads_in_completion_order
     [of "Responded True (Some exampleUploadBody)" "(Val (JStr ''ok''), Val (JNum 3), Val (JNum 7))"
         exampleFile 61 62
         "initial\<lparr>uploadStatuses := exampleStatuses, isUploading := True,
            uploadingFile := Some ''c.pdf''\<rparr>"
         uint32Platform "[]"]
  by (simp add: handleUploadPDF_resume_def exampleUploadBody_def exampleFile_def getProp_def
      thenE_def newStatus_def showNat.simps digit_def run_def handleFileUpload_resume_def
      removeStatus_def exampleStatuses_def)

end
